theory Spec2Isabelle
  imports Main
begin

section \<open>Codes and the code pool\<close>

text \<open>
  \<^verbatim>\<open>type Code int\<close>: a code is a Go \<^verbatim>\<open>int\<close>. The package never does arithmetic on a
  code (it is a map key and a printed value only), so codes and HTTP statuses are
  modelled as \<open>int\<close>; negative codes such as \<^verbatim>\<open>Code(-1)\<close> are values of the type.
\<close>

type_synonym Code = int

definition CodeUnknown :: Code where "CodeUnknown = 0"
definition CodeGeneric :: Code where "CodeGeneric = 1"
definition CodeInvalidSyntax :: Code where "CodeInvalidSyntax = 2"
definition CodeInvalidArgs :: Code where "CodeInvalidArgs = 3"
definition CodeUnauthorized :: Code where "CodeUnauthorized = 4"
definition CodeForbidden :: Code where "CodeForbidden = 5"
definition CodeNotFound :: Code where "CodeNotFound = 6"
definition CodeUnavailable :: Code where "CodeUnavailable = 7"

record codeDetails =
  httpStatus :: int
  str :: string

text \<open>
  \<^verbatim>\<open>var codePool = map[Code]codeDetails{...}\<close> is package-level mutable state. The
  model passes the pool explicitly: \<open>codePool\<close> is its initial value, and every function
  that reads or writes the Go variable takes the current pool as an argument.
\<close>

type_synonym pool = "Code \<rightharpoonup> codeDetails"

definition codePool :: pool where
  "codePool = [
     CodeUnknown \<mapsto> \<lparr>httpStatus = 500, str = ''error''\<rparr>,
     CodeGeneric \<mapsto> \<lparr>httpStatus = 500, str = ''error''\<rparr>,
     CodeInvalidSyntax \<mapsto> \<lparr>httpStatus = 400, str = ''syntax''\<rparr>,
     CodeInvalidArgs \<mapsto> \<lparr>httpStatus = 400, str = ''arguments''\<rparr>,
     CodeUnauthorized \<mapsto> \<lparr>httpStatus = 401, str = ''auth''\<rparr>,
     CodeForbidden \<mapsto> \<lparr>httpStatus = 403, str = ''auth''\<rparr>,
     CodeNotFound \<mapsto> \<lparr>httpStatus = 404, str = ''missing''\<rparr>,
     CodeUnavailable \<mapsto> \<lparr>httpStatus = 503, str = ''unavailable''\<rparr>]"

definition CodeString :: "pool \<Rightarrow> Code \<Rightarrow> string" where
  "CodeString p c = (case p c of Some s \<Rightarrow> str s | None \<Rightarrow> ''error'')"

definition CodeHTTPStatus :: "pool \<Rightarrow> Code \<Rightarrow> int" where
  "CodeHTTPStatus p c = (case p c of Some s \<Rightarrow> httpStatus s | None \<Rightarrow> 500)"

section \<open>Values and errors\<close>

text \<open>
  \<^verbatim>\<open>data []interface{}\<close> holds dynamically typed values that are only ever printed with
  the verb \<^verbatim>\<open>%v\<close>. The model covers the kinds of value the package and its tests pass:
  strings and integers (a \<^verbatim>\<open>Code\<close> prints as its integer).
\<close>

datatype val = VStr string | VInt int

fun fmt_nat :: "nat \<Rightarrow> string" where
  "fmt_nat n = (if n < 10 then [''0123456789'' ! n]
                else fmt_nat (n div 10) @ [''0123456789'' ! (n mod 10)])"

declare fmt_nat.simps [simp del]

definition fmt_int :: "int \<Rightarrow> string" where
  "fmt_int i = (if i < 0 then ''-'' @ fmt_nat (nat (- i)) else fmt_nat (nat i))"

fun fmt_v :: "val \<Rightarrow> string" where
  "fmt_v (VStr s) = s"
| "fmt_v (VInt i) = fmt_int i"

text \<open>
  A Go \<^verbatim>\<open>error\<close> interface value is \<open>None\<close> (nil) or \<open>Some e\<close>. The dynamic types are
  those of \<^verbatim>\<open>github.com/pkg/errors\<close> that this package creates (\<open>Fundamental\<close> from
  \<^verbatim>\<open>errors.New\<close>; \<open>WithStack\<close> around \<open>WithMessage\<close> from \<^verbatim>\<open>errors.Wrap\<close>), a pointer
  to this package's own \<^verbatim>\<open>Error\<close> struct (\<open>ErrPtr\<close>), and \<open>Plain\<close> for any other error
  that has an \<^verbatim>\<open>Error()\<close> method only, such as the result of \<^verbatim>\<open>fmt.Errorf\<close>.

  The struct \<^verbatim>\<open>Error\<close> is a datatype with the field names as selectors, since it is
  mutually recursive with \<open>error\<close> through its \<^verbatim>\<open>cause\<close> field. The field \<^verbatim>\<open>fix\<close> is
  named \<open>fix_str\<close>. A value of type \<open>Error\<close> stands for the struct behind a non-nil
  \<^verbatim>\<open>*Error\<close>: every constructor returns the address of a fresh composite literal.

  Two kinds of Go error value are outside the datatype: a nil \<^verbatim>\<open>*Error\<close> stored in an
  \<^verbatim>\<open>error\<close> interface (the interface is then not nil, and the methods, which have value
  receivers, panic on it), and errors of other packages that have a \<^verbatim>\<open>Cause()\<close> method
  of their own. A fact below that speaks of every error speaks of the errors of the
  datatype: those this package and \<^verbatim>\<open>github.com/pkg/errors\<close> build, over plain errors.
\<close>

datatype error =
    Fundamental string
  | WithMessage error string
  | WithStack error
  | ErrPtr Error
  | Plain string
and Error =
    Error (code: Code) (friendly: string) (fix_str: string) (data: "val list")
          (cause: "error option")

datatype panic = NilDereference

section \<open>The collaborator \<^verbatim>\<open>github.com/pkg/errors\<close>\<close>

text \<open>
  Modelled from the spec: the error-wrapping collaborator (section 6 of the
  specification; the Go package \<^verbatim>\<open>github.com/pkg/errors\<close>, imported by
  \<^verbatim>\<open>error.go\<close> and not part of its sources). It supplies "create plain error from
  message" (\<open>errors_New\<close>), "wrap existing error with message, preserving chain"
  (\<open>errors_Wrap\<close>, which gives nil for a nil error, as the comment above
  \<^verbatim>\<open>Wrap\<close> in \<^verbatim>\<open>error.go\<close> records: "If err is nil, Wrap returns nil") and the
  chain-unwrapping primitive (\<open>errors_Cause\<close>): as long as the error is not nil and
  has a \<^verbatim>\<open>Cause()\<close> method, replace it by what the method returns. Stack traces are
  not modelled.
\<close>

definition errors_New :: "string \<Rightarrow> error" where
  "errors_New message = Fundamental message"

definition errors_Wrap :: "error option \<Rightarrow> string \<Rightarrow> error option" where
  "errors_Wrap err message =
     (case err of None \<Rightarrow> None
      | Some e \<Rightarrow> Some (WithStack (WithMessage e message)))"

text \<open>
  \<open>causer e\<close> is the type assertion \<^verbatim>\<open>err.(causer)\<close>: \<open>None\<close> when the dynamic type
  has no \<^verbatim>\<open>Cause()\<close> method, otherwise \<open>Some\<close> of what the method returns. For
  \<^verbatim>\<open>*Error\<close> the method is \<^verbatim>\<open>func (e Error) Cause() error { return e.cause }\<close>.
\<close>

fun causer :: "error \<Rightarrow> error option option" where
  "causer (Fundamental m) = None"
| "causer (WithMessage c m) = Some (Some c)"
| "causer (WithStack w) = Some (Some w)"
| "causer (ErrPtr e) = Some (cause e)"
| "causer (Plain m) = None"

fun errors_Cause :: "error option \<Rightarrow> error option" where
  "errors_Cause None = None"
| "errors_Cause (Some (Fundamental m)) = Some (Fundamental m)"
| "errors_Cause (Some (WithMessage c m)) = errors_Cause (Some c)"
| "errors_Cause (Some (WithStack w)) = errors_Cause (Some w)"
| "errors_Cause (Some (ErrPtr (Error c f x ds cs))) = errors_Cause cs"
| "errors_Cause (Some (Plain m)) = Some (Plain m)"

section \<open>The methods of \<^verbatim>\<open>Error\<close>\<close>

text \<open>
  \<^verbatim>\<open>Error()\<close> of each dynamic type. Calling a method on a nil interface value panics,
  so the result is \<open>panic + string\<close>. \<open>Error_Error\<close> is the method of this package:
  \<^verbatim>\<open>fmt.Sprintf("%s: %s", CodeString(e.code), e.cause.Error())\<close>, whose second
  argument is evaluated (and may panic) before anything is formatted.
\<close>

fun error_Error :: "pool \<Rightarrow> error \<Rightarrow> panic + string"
and Error_Error :: "pool \<Rightarrow> Error \<Rightarrow> panic + string" where
  "error_Error p (Fundamental m) = Inr m"
| "error_Error p (WithMessage c m) =
     (case error_Error p c of Inl x \<Rightarrow> Inl x | Inr s \<Rightarrow> Inr (m @ '': '' @ s))"
| "error_Error p (WithStack w) = error_Error p w"
| "error_Error p (ErrPtr e) = Error_Error p e"
| "error_Error p (Plain m) = Inr m"
| "Error_Error p (Error c f x ds cs) =
     (case cs of None \<Rightarrow> Inl NilDereference
      | Some e \<Rightarrow>
          (case error_Error p e of Inl y \<Rightarrow> Inl y
           | Inr s \<Rightarrow> Inr (CodeString p c @ '': '' @ s)))"

definition Error_Cause :: "Error \<Rightarrow> error option" where
  "Error_Cause e = cause e"

definition Error_Code :: "Error \<Rightarrow> Code" where
  "Error_Code e = code e"

definition Error_Fix :: "Error \<Rightarrow> string" where
  "Error_Fix e = fix_str e"

text \<open>
  The loop of \<^verbatim>\<open>Friendly\<close>, \<^verbatim>\<open>for i, d := range e.data\<close>: \<open>n\<close> is \<^verbatim>\<open>len(e.data)\<close>,
  \<open>i\<close> the index of the head of the remaining values and \<open>s\<close> the string built so far.
  The comparison \<^verbatim>\<open>i < len(e.data)-1\<close> is on Go ints, hence on \<open>int\<close> here.
\<close>

fun Friendly_loop :: "nat \<Rightarrow> nat \<Rightarrow> val list \<Rightarrow> string \<Rightarrow> string" where
  "Friendly_loop n i [] s = s"
| "Friendly_loop n i (d # ds) s =
     Friendly_loop n (i + 1) ds
       ((s @ '' '' @ fmt_v d) @ (if int i < int n - 1 then '','' else ''.''))"

definition Error_Friendly :: "pool \<Rightarrow> Error \<Rightarrow> string" where
  "Error_Friendly p e =
     (if friendly e = '''' \<and> fix_str e = '''' then ''''
      else
        (let s = CodeString p (code e) @ '': '' @ friendly e;
             s = Friendly_loop (length (data e)) 0 (data e) s
         in if fix_str e \<noteq> '''' then s @ '' '' @ fix_str e else s))"

section \<open>Constructors\<close>

text \<open>
  \<^verbatim>\<open>err.friendly = friendly\<close> and \<^verbatim>\<open>err.fix = fix\<close> assign one field of the struct just
  built, which nothing else refers to yet: \<open>set_friendly\<close> and \<open>set_fix\<close>.
\<close>

definition New :: "Code \<Rightarrow> string \<Rightarrow> val list \<Rightarrow> Error" where
  "New c message ds = Error c '''' '''' ds (Some (errors_New message))"

definition set_friendly :: "Error \<Rightarrow> string \<Rightarrow> Error" where
  "set_friendly e f = Error (code e) f (fix_str e) (data e) (cause e)"

definition set_fix :: "Error \<Rightarrow> string \<Rightarrow> Error" where
  "set_fix e x = Error (code e) (friendly e) x (data e) (cause e)"

definition NewFriendly :: "Code \<Rightarrow> string \<Rightarrow> string \<Rightarrow> val list \<Rightarrow> Error" where
  "NewFriendly c message f ds = set_friendly (New c message ds) f"

definition NewFriendlyFix ::
  "Code \<Rightarrow> string \<Rightarrow> string \<Rightarrow> string \<Rightarrow> val list \<Rightarrow> Error" where
  "NewFriendlyFix c message f x ds = set_fix (NewFriendly c message f ds) x"

definition Wrap :: "Code \<Rightarrow> error option \<Rightarrow> string \<Rightarrow> val list \<Rightarrow> Error" where
  "Wrap c err message ds = Error c '''' '''' ds (errors_Wrap err message)"

definition WrapFriendly ::
  "Code \<Rightarrow> error option \<Rightarrow> string \<Rightarrow> string \<Rightarrow> val list \<Rightarrow> Error" where
  "WrapFriendly c err message f ds = set_friendly (Wrap c err message ds) f"

definition WrapFriendlyFix ::
  "Code \<Rightarrow> error option \<Rightarrow> string \<Rightarrow> string \<Rightarrow> string \<Rightarrow> val list \<Rightarrow> Error" where
  "WrapFriendlyFix c err message f x ds = set_fix (WrapFriendly c err message f ds) x"

definition Cause :: "error option \<Rightarrow> error option" where
  "Cause err = errors_Cause err"

section \<open>Registration\<close>

text \<open>
  \<^verbatim>\<open>RegisterCode\<close> returns the error (nil on success) together with the pool it leaves
  behind. The \<^verbatim>\<open>*Error\<close> it returns on failure is converted to a non-nil \<^verbatim>\<open>error\<close>.
\<close>

definition RegisterCode :: "pool \<Rightarrow> Code \<Rightarrow> int \<Rightarrow> string \<Rightarrow> error option \<times> pool" where
  "RegisterCode p c status typeStr =
     (case p c of
        Some _ \<Rightarrow> (Some (ErrPtr (New CodeInvalidArgs ''already registered'' [VInt c])), p)
      | None \<Rightarrow> (None, p(c \<mapsto> \<lparr>httpStatus = status, str = typeStr\<rparr>)))"

text \<open>
  \<^verbatim>\<open>codePool\<close> is unexported and written by \<^verbatim>\<open>RegisterCode\<close> only, so the pools a
  program can be in are those left by a sequence of \<^verbatim>\<open>RegisterCode\<close> calls, each given
  by its three arguments, on the initial pool.
\<close>

definition pool_after :: "(Code \<times> int \<times> string) list \<Rightarrow> pool" where
  "pool_after calls =
     foldl (\<lambda>p (c, status, typeStr). snd (RegisterCode p c status typeStr)) codePool calls"

section \<open>Vocabulary of the specification\<close>

text \<open>
  The chain of an error, in the specification's words: the error itself, then its cause,
  then the cause of that, for as long as there is a cause. \<open>caused e\<close> says that every
  \<^verbatim>\<open>*Error\<close> on the chain of \<open>e\<close> has a cause that is not nil.
\<close>

fun chain :: "error \<Rightarrow> error list" where
  "chain (Fundamental m) = [Fundamental m]"
| "chain (WithMessage c m) = WithMessage c m # chain c"
| "chain (WithStack w) = WithStack w # chain w"
| "chain (ErrPtr (Error c f x ds cs)) =
     ErrPtr (Error c f x ds cs) # (case cs of None \<Rightarrow> [] | Some e \<Rightarrow> chain e)"
| "chain (Plain m) = [Plain m]"

fun caused :: "error \<Rightarrow> bool" where
  "caused (Fundamental m) = True"
| "caused (WithMessage c m) = caused c"
| "caused (WithStack w) = caused w"
| "caused (ErrPtr (Error c f x ds cs)) = (case cs of None \<Rightarrow> False | Some e \<Rightarrow> caused e)"
| "caused (Plain m) = True"

section \<open>Auxiliary facts\<close>

lemma codePool_dom:
  "dom codePool = {0, 1, 2, 3, 4, 5, 6, 7}"
  by (auto simp: codePool_def CodeUnknown_def CodeGeneric_def CodeInvalidSyntax_def
      CodeInvalidArgs_def CodeUnauthorized_def CodeForbidden_def CodeNotFound_def
      CodeUnavailable_def split: if_splits)

lemma codePool_Generic: "codePool CodeGeneric = Some \<lparr>httpStatus = 500, str = ''error''\<rparr>"
  by (simp add: codePool_def CodeUnknown_def CodeGeneric_def CodeInvalidSyntax_def
      CodeInvalidArgs_def CodeUnauthorized_def CodeForbidden_def CodeNotFound_def
      CodeUnavailable_def)

lemma codePool_Forbidden: "codePool CodeForbidden = Some \<lparr>httpStatus = 403, str = ''auth''\<rparr>"
  by (simp add: codePool_def CodeUnknown_def CodeGeneric_def CodeInvalidSyntax_def
      CodeInvalidArgs_def CodeUnauthorized_def CodeForbidden_def CodeNotFound_def
      CodeUnavailable_def)

text \<open>A registered code keeps its details through every later call.\<close>

lemma RegisterCode_keeps:
  "p c = Some d \<Longrightarrow> snd (RegisterCode p c' status typeStr) c = Some d"
  by (cases "p c'") (auto simp: RegisterCode_def)

lemma foldl_RegisterCode_keeps:
  "p c = Some d \<Longrightarrow>
   foldl (\<lambda>p (c, status, typeStr). snd (RegisterCode p c status typeStr)) p calls c = Some d"
proof (induction calls arbitrary: p)
  case Nil
  then show ?case by simp
next
  case (Cons a calls)
  obtain c' status typeStr where a: "a = (c', status, typeStr)"
    by (cases a) auto
  from Cons.prems have "snd (RegisterCode p c' status typeStr) c = Some d"
    by (rule RegisterCode_keeps)
  then show ?case
    using Cons.IH by (simp add: a)
qed

lemma pool_after_Generic: "CodeString (pool_after calls) CodeGeneric = ''error''"
  using foldl_RegisterCode_keeps [of codePool CodeGeneric _ calls] codePool_Generic
  by (simp add: pool_after_def CodeString_def)

lemma pool_after_Forbidden: "CodeString (pool_after calls) CodeForbidden = ''auth''"
  using foldl_RegisterCode_keeps [of codePool CodeForbidden _ calls] codePool_Forbidden
  by (simp add: pool_after_def CodeString_def)

text \<open>
  \<open>errors_Cause\<close> is the loop
  \<^verbatim>\<open>for err != nil { cause, ok := err.(causer); if !ok { break }; err = cause.Cause() }\<close>.
\<close>

lemma errors_Cause_loop:
  "errors_Cause (Some e) = (case causer e of None \<Rightarrow> Some e | Some c \<Rightarrow> errors_Cause c)"
proof (cases e)
  case (ErrPtr E)
  then show ?thesis by (cases E) simp
qed simp_all

lemma chain_not_Nil: "chain e \<noteq> []"
  by (induction e rule: chain.induct) simp_all

lemma errors_Cause_last_chain:
  "caused e \<Longrightarrow> errors_Cause (Some e) = Some (last (chain e)) \<and> causer (last (chain e)) = None"
  by (induction e rule: caused.induct) (auto simp: chain_not_Nil split: option.splits)

text \<open>
  \<^verbatim>\<open>Error()\<close> returns a string when every \<^verbatim>\<open>*Error\<close> on the chain has a cause that is
  not nil.
\<close>

lemma error_Error_returns:
  "caused e \<Longrightarrow> \<exists>s. error_Error p e = Inr s"
  by (induction e rule: caused.induct) (auto split: option.splits)

text \<open>The loop of \<^verbatim>\<open>Friendly\<close> in closed form.\<close>

lemma Friendly_loop_eq:
  "Friendly_loop (i + length ds) i ds s =
     s @ concat (map (\<lambda>d. '' '' @ fmt_v d @ '','') (butlast ds)) @
     (if ds = [] then '''' else '' '' @ fmt_v (last ds) @ ''.'')"
proof (induction ds arbitrary: i s)
  case Nil
  show ?case by simp
next
  case (Cons d ds)
  have step: "Friendly_loop (i + length (d # ds)) i (d # ds) s =
      Friendly_loop (Suc i + length ds) (Suc i) ds
        ((s @ '' '' @ fmt_v d) @ (if ds = [] then ''.'' else '',''))"
    by (cases ds) simp_all
  show ?case
    unfolding step Cons.IH by (cases ds) simp_all
qed

lemma Friendly_loop_data:
  "Friendly_loop (length ds) 0 ds s =
     s @ concat (map (\<lambda>d. '' '' @ fmt_v d @ '','') (butlast ds)) @
     (if ds = [] then '''' else '' '' @ fmt_v (last ds) @ ''.'')"
  using Friendly_loop_eq [of 0 ds s] by simp

text \<open>
  The output of the package's example test \<^verbatim>\<open>ExampleNewWithMessage\<close>, whose data value
  is the integer 1, and the decimal form of some integers.
\<close>

lemma codePool_NotFound:
  "codePool CodeNotFound = Some \<lparr>httpStatus = 404, str = ''missing''\<rparr>"
  by (simp add: codePool_def CodeUnknown_def CodeGeneric_def CodeInvalidSyntax_def
      CodeInvalidArgs_def CodeUnauthorized_def CodeForbidden_def CodeNotFound_def
      CodeUnavailable_def)

lemma Friendly_example:
  "Error_Friendly codePool
     (WrapFriendly CodeNotFound (Some (Plain ''not found'')) ''''
        ''couldn't find data with the id'' [VInt 1]) =
   ''missing: couldn't find data with the id 1.''"
  by (simp add: Error_Friendly_def WrapFriendly_def Wrap_def set_friendly_def CodeString_def
      codePool_NotFound fmt_int_def fmt_nat.simps)

lemma fmt_int_examples:
  "fmt_int 504 = ''504''" "fmt_int (- 1) = ''-1''" "fmt_int 0 = ''0''"
  by (simp_all add: fmt_int_def fmt_nat.simps)

text \<open>
  Outside the case of a nil error given to the \<^verbatim>\<open>Wrap\<close> family, every constructor
  stores a cause that is not nil.
\<close>

lemma constructors_cause:
  "cause (New c message ds) \<noteq> None"
  "cause (NewFriendly c message f ds) \<noteq> None"
  "cause (NewFriendlyFix c message f x ds) \<noteq> None"
  "cause (Wrap c (Some err) message ds) \<noteq> None"
  "cause (WrapFriendly c (Some err) message f ds) \<noteq> None"
  "cause (WrapFriendlyFix c (Some err) message f x ds) \<noteq> None"
  by (simp_all add: New_def NewFriendly_def NewFriendlyFix_def Wrap_def WrapFriendly_def
      WrapFriendlyFix_def set_friendly_def set_fix_def errors_Wrap_def)

section \<open>Errors without a nil cause\<close>

text \<open>
  On nil \<^verbatim>\<open>Cause\<close> returns nil, and on an error with no \<^verbatim>\<open>Cause()\<close> method it returns
  that error. On an error on whose chain every \<^verbatim>\<open>*Error\<close> has a cause that is not nil
  it returns the last error of the chain, which has no \<^verbatim>\<open>Cause()\<close> method. On a chain
  built by \<^verbatim>\<open>New\<close>, then \<^verbatim>\<open>Wrap\<close>, then \<^verbatim>\<open>WrapFriendlyFix\<close> it returns the error
  \<^verbatim>\<open>New\<close> made from the message, which is not an \<^verbatim>\<open>*Error\<close>.
\<close>

lemma Cause_caused_chain:
  "Cause None = None \<and>
   (causer e = None \<longrightarrow> Cause (Some e) = Some e) \<and>
   (caused e' \<longrightarrow> Cause (Some e') = Some (last (chain e')) \<and> causer (last (chain e')) = None) \<and>
   Cause (Some (ErrPtr (WrapFriendlyFix c3
            (Some (ErrPtr (Wrap c2 (Some (ErrPtr (New c1 m1 ds1))) m2 ds2))) m3 f3 x3 ds3))) =
     Some (Fundamental m1) \<and>
   Fundamental m1 \<noteq> ErrPtr E"
proof -
  have plain: "causer e = None \<longrightarrow> Cause (Some e) = Some e"
    by (simp add: Cause_def errors_Cause_loop)
  have inner: "caused e' \<longrightarrow>
      Cause (Some e') = Some (last (chain e')) \<and> causer (last (chain e')) = None"
    by (simp add: Cause_def errors_Cause_last_chain)
  have three: "Cause (Some (ErrPtr (WrapFriendlyFix c3
            (Some (ErrPtr (Wrap c2 (Some (ErrPtr (New c1 m1 ds1))) m2 ds2))) m3 f3 x3 ds3))) =
     Some (Fundamental m1)"
    by (simp add: Cause_def WrapFriendlyFix_def WrapFriendly_def Wrap_def New_def
        set_fix_def set_friendly_def errors_Wrap_def errors_New_def)
  show ?thesis
    using plain inner three by (simp add: Cause_def)
qed

text \<open>A plain error, and the three-level chain of the package's test.\<close>

lemma Cause_three_levels:
  "causer (Plain ''not found'') = None \<and>
   Cause (Some (Plain ''not found'')) = Some (Plain ''not found'') \<and>
   caused (ErrPtr (WrapFriendlyFix CodeForbidden
     (Some (ErrPtr (Wrap CodeInvalidArgs (Some (ErrPtr (New CodeGeneric ''so bad'' []))) ''a'' [])))
     ''you're not allowed access to the value'' ''please try a different value'' ''a'' [])) \<and>
   Cause (Some (ErrPtr (WrapFriendlyFix CodeForbidden
     (Some (ErrPtr (Wrap CodeInvalidArgs (Some (ErrPtr (New CodeGeneric ''so bad'' []))) ''a'' [])))
     ''you're not allowed access to the value'' ''please try a different value'' ''a'' []))) =
     Some (Fundamental ''so bad'')"
  using Cause_caused_chain [of "Plain ''not found''"
    "ErrPtr (WrapFriendlyFix CodeForbidden
     (Some (ErrPtr (Wrap CodeInvalidArgs (Some (ErrPtr (New CodeGeneric ''so bad'' []))) ''a'' [])))
     ''you're not allowed access to the value'' ''please try a different value'' ''a'' [])"]
  by (simp add: WrapFriendlyFix_def WrapFriendly_def Wrap_def New_def
        set_fix_def set_friendly_def errors_Wrap_def errors_New_def)

text \<open>
  For an \<^verbatim>\<open>Error\<close> whose cause is not nil and has the \<^verbatim>\<open>Error()\<close> string \<open>s\<close>,
  \<^verbatim>\<open>Error()\<close> is the label of its code in the pool, then \<open>'': ''\<close>, then \<open>s\<close>. The cause
  has such a string when every \<^verbatim>\<open>*Error\<close> on its chain has a cause that is not nil;
  where \<^verbatim>\<open>Error()\<close> of the cause panics, so does \<^verbatim>\<open>Error()\<close>. In every pool that
  registrations lead to from the initial one, \<^verbatim>\<open>New(CodeGeneric, "machine error")\<close> has
  the \<^verbatim>\<open>Error()\<close> string "error: machine error".
\<close>

lemma Error_Error_of_cause:
  "(cause e = Some c \<and> error_Error p c = Inr s \<longrightarrow>
      Error_Error p e = Inr (CodeString p (code e) @ '': '' @ s)) \<and>
   (cause e = Some c \<and> caused c \<longrightarrow>
      (\<exists>t. error_Error p c = Inr t \<and>
           Error_Error p e = Inr (CodeString p (code e) @ '': '' @ t))) \<and>
   (cause e = Some c \<and> error_Error p c = Inl NilDereference \<longrightarrow>
      Error_Error p e = Inl NilDereference) \<and>
   Error_Error (pool_after calls) (New CodeGeneric ''machine error'' ds) =
     Inr ''error: machine error''"
proof -
  have str: "cause e = Some c \<and> error_Error p c = Inr s \<longrightarrow>
      Error_Error p e = Inr (CodeString p (code e) @ '': '' @ s)" for s
    by (cases e) simp
  have ret: "cause e = Some c \<and> caused c \<longrightarrow>
      (\<exists>t. error_Error p c = Inr t \<and>
           Error_Error p e = Inr (CodeString p (code e) @ '': '' @ t))"
    using error_Error_returns [of c p] str by blast
  have pan: "cause e = Some c \<and> error_Error p c = Inl NilDereference \<longrightarrow>
      Error_Error p e = Inl NilDereference"
    by (cases e) simp
  have new: "Error_Error (pool_after calls) (New CodeGeneric ''machine error'' ds) =
     Inr ''error: machine error''"
    by (simp add: New_def errors_New_def pool_after_Generic)
  show ?thesis
    using str ret pan new by simp
qed

text \<open>An error wrapped with code \<^verbatim>\<open>CodeNotFound\<close>, on the initial pool.\<close>

lemma Error_Error_example:
  "cause (Wrap CodeNotFound (Some (Plain ''not found'')) ''lookup'' []) =
     Some (WithStack (WithMessage (Plain ''not found'') ''lookup'')) \<and>
   error_Error codePool (WithStack (WithMessage (Plain ''not found'') ''lookup'')) =
     Inr ''lookup: not found'' \<and>
   Error_Error codePool (Wrap CodeNotFound (Some (Plain ''not found'')) ''lookup'' []) =
     Inr ''missing: lookup: not found'' \<and>
   Error_Error (pool_after []) (New CodeGeneric ''machine error'' []) =
     Inr ''error: machine error''"
  using Error_Error_of_cause [where e = "Wrap CodeNotFound (Some (Plain ''not found'')) ''lookup'' []"
      and c = "WithStack (WithMessage (Plain ''not found'') ''lookup'')" and p = codePool
      and s = "''lookup: not found''" and calls = "[]" and ds = "[]"]
  by (simp add: Wrap_def errors_Wrap_def CodeString_def codePool_def CodeUnknown_def
      CodeGeneric_def CodeInvalidSyntax_def CodeInvalidArgs_def CodeUnauthorized_def
      CodeForbidden_def CodeNotFound_def CodeUnavailable_def)

section \<open>The claims\<close>

subsection \<open>C1: the format of \<^verbatim>\<open>Friendly\<close>\<close>

text \<open>
  Claim C1. For every \<^verbatim>\<open>Error\<close> whose friendly template or fix is not empty,
  \<^verbatim>\<open>Friendly()\<close> is the label of its code in the pool, then \<open>'': ''\<close>, then the
  template, then every data value but the last as a space, the value and a comma, then
  the last data value (if there is one) as a space, the value and a period, then, if the
  fix is not empty, a space and the fix.
\<close>

theorem Friendly_format:
  assumes "friendly e \<noteq> '''' \<or> fix_str e \<noteq> ''''"
  shows "Error_Friendly p e =
     CodeString p (code e) @ '': '' @ friendly e @
     concat (map (\<lambda>d. '' '' @ fmt_v d @ '','') (butlast (data e))) @
     (if data e = [] then '''' else '' '' @ fmt_v (last (data e)) @ ''.'') @
     (if fix_str e = '''' then '''' else '' '' @ fix_str e)"
  using assms by (simp add: Error_Friendly_def Let_def Friendly_loop_data)

text \<open>
  Claim C1, at the example of the claim: code \<^verbatim>\<open>CodeForbidden\<close>, whose label in the
  initial pool is "auth", the data values "apples" and "oranges", and a fix.
\<close>

theorem Friendly_format_witness:
  "friendly (NewFriendlyFix CodeForbidden ''forbidden''
        ''you don't have access to the following things:''
        ''are you sure you're logged in?'' [VStr ''apples'', VStr ''oranges'']) \<noteq> '''' \<and>
   CodeString codePool CodeForbidden = ''auth'' \<and>
   Error_Friendly codePool
     (NewFriendlyFix CodeForbidden ''forbidden''
        ''you don't have access to the following things:''
        ''are you sure you're logged in?'' [VStr ''apples'', VStr ''oranges'']) =
   ''auth: you don't have access to the following things: apples, oranges. are you sure you're logged in?''"
  using Friendly_format [of "NewFriendlyFix CodeForbidden ''forbidden''
        ''you don't have access to the following things:''
        ''are you sure you're logged in?'' [VStr ''apples'', VStr ''oranges'']" codePool]
  by (simp add: NewFriendlyFix_def NewFriendly_def New_def set_fix_def set_friendly_def
      CodeString_def codePool_Forbidden)

subsection \<open>C2: the root cause\<close>

text \<open>
  Claim C2 says that \<^verbatim>\<open>Cause\<close> returns, for every error, the innermost error of its
  chain. For the \<^verbatim>\<open>*Error\<close> that \<^verbatim>\<open>Wrap\<close> builds from a nil error it does not: that
  value has a \<^verbatim>\<open>Cause()\<close> method, the method returns the nil cause, and \<^verbatim>\<open>Cause\<close>
  returns nil, which is no error of the chain, for an argument that is not nil.
\<close>

theorem Cause_Wrap_nil:
  "causer (ErrPtr (Wrap CodeGeneric None ''m'' [])) = Some None \<and>
   Cause (Some (ErrPtr (Wrap CodeGeneric None ''m'' []))) = None"
  by (simp add: Cause_def Wrap_def errors_Wrap_def)

subsection \<open>C3: registering a code twice\<close>

text \<open>
  Claim C3. \<^verbatim>\<open>RegisterCode\<close> returns an error exactly when the code is already in the
  pool, and then it leaves the pool as it was, so that \<^verbatim>\<open>CodeHTTPStatus\<close> and
  \<^verbatim>\<open>CodeString\<close> of the code are what they were before the call.
\<close>

theorem RegisterCode_duplicate:
  "(fst (RegisterCode p c status typeStr) \<noteq> None) = (c \<in> dom p) \<and>
   (c \<in> dom p \<longrightarrow>
      snd (RegisterCode p c status typeStr) = p \<and>
      CodeHTTPStatus (snd (RegisterCode p c status typeStr)) c = CodeHTTPStatus p c \<and>
      CodeString (snd (RegisterCode p c status typeStr)) c = CodeString p c)"
  by (auto simp: RegisterCode_def split: option.splits)

text \<open>
  Claim C3, at the call of the package's test: \<^verbatim>\<open>CodeForbidden\<close> registered again with
  status 200 and label "forbidden" on the initial pool.
\<close>

theorem RegisterCode_duplicate_witness:
  "CodeForbidden \<in> dom codePool \<and>
   fst (RegisterCode codePool CodeForbidden 200 ''forbidden'') \<noteq> None \<and>
   snd (RegisterCode codePool CodeForbidden 200 ''forbidden'') = codePool \<and>
   CodeHTTPStatus (snd (RegisterCode codePool CodeForbidden 200 ''forbidden'')) CodeForbidden = 403 \<and>
   CodeString (snd (RegisterCode codePool CodeForbidden 200 ''forbidden'')) CodeForbidden = ''auth''"
proof -
  have d: "CodeForbidden \<in> dom codePool"
    by (simp add: codePool_dom CodeForbidden_def)
  show ?thesis
    using d RegisterCode_duplicate [of codePool CodeForbidden 200 "''forbidden''"]
    by (simp add: CodeHTTPStatus_def CodeString_def codePool_Forbidden)
qed

subsection \<open>C4: the cause of a constructed \<^verbatim>\<open>Error\<close>\<close>

text \<open>
  Claim C4 says that no constructor builds an \<^verbatim>\<open>Error\<close> with a nil cause, also from
  a nil error. \<^verbatim>\<open>Wrap\<close> does: it stores what wrapping the nil error gives, which is nil.
\<close>

theorem Wrap_nil_cause:
  "Error_Cause (Wrap CodeGeneric None ''msg'' []) = None"
  by (simp add: Error_Cause_def Wrap_def errors_Wrap_def)

subsection \<open>C5: codes that are not registered\<close>

text \<open>
  Claim C5. For a code that is not in the pool, negative ones included,
  \<^verbatim>\<open>CodeString\<close> is "error" and \<^verbatim>\<open>CodeHTTPStatus\<close> is 500. Both lookups read the map
  with the two-result form, which cannot fail: they are total functions here.
\<close>

theorem Code_defaults:
  "c \<notin> dom p \<Longrightarrow> CodeString p c = ''error'' \<and> CodeHTTPStatus p c = 500"
  by (auto simp: CodeString_def CodeHTTPStatus_def split: option.splits)

text \<open>
  Claim C5, at \<^verbatim>\<open>Code(-1)\<close> on the initial pool.
\<close>

theorem Code_defaults_witness:
  "(- 1) \<notin> dom codePool \<and> CodeString codePool (- 1) = ''error'' \<and>
   CodeHTTPStatus codePool (- 1) = 500"
proof -
  have d: "(- 1) \<notin> dom codePool"
    by (simp add: codePool_dom)
  show ?thesis
    using d Code_defaults [OF d] by simp
qed

subsection \<open>C6: the format of \<^verbatim>\<open>Error\<close>\<close>

text \<open>
  Claim C6 says that \<^verbatim>\<open>Error()\<close> of every \<^verbatim>\<open>Error\<close> whose cause is not nil is the label
  of its code, then \<open>'': ''\<close>, then the \<^verbatim>\<open>Error()\<close> string of the cause. Wrapping the
  \<^verbatim>\<open>*Error\<close> that \<^verbatim>\<open>Wrap\<close> builds from a nil error gives an \<^verbatim>\<open>Error\<close> whose cause is
  not nil, and \<^verbatim>\<open>Error()\<close> on it returns no string: it panics when it reaches the nil
  cause of the inner value.
\<close>

theorem Error_Wrap_nil_nested:
  "cause (Wrap CodeGeneric (Some (ErrPtr (Wrap CodeNotFound None ''m'' []))) ''outer'' []) =
     Some (WithStack (WithMessage (ErrPtr (Wrap CodeNotFound None ''m'' [])) ''outer'')) \<and>
   Error_Error codePool
     (Wrap CodeGeneric (Some (ErrPtr (Wrap CodeNotFound None ''m'' []))) ''outer'' []) =
     Inl NilDereference"
  by (simp add: Wrap_def errors_Wrap_def)

subsection \<open>C7: when \<^verbatim>\<open>Friendly\<close> is empty\<close>

text \<open>
  Claim C7. \<^verbatim>\<open>Friendly()\<close> is the empty string exactly when the friendly template and
  the fix are both empty, whatever the code, the data and the pool; so it is empty for
  every value \<^verbatim>\<open>New\<close> builds.
\<close>

theorem Friendly_empty_iff:
  "(Error_Friendly p e = '''') = (friendly e = '''' \<and> fix_str e = '''') \<and>
   Error_Friendly p (New c message ds) = ''''"
  by (simp add: Error_Friendly_def Let_def Friendly_loop_data New_def)

text \<open>
  Claim C7, at an \<^verbatim>\<open>Error\<close> with data but neither text, at one with a fix only, and at
  a value built by \<^verbatim>\<open>New\<close>.
\<close>

theorem Friendly_empty_iff_witness:
  "Error_Friendly codePool (Error CodeNotFound '''' '''' [VInt 1, VInt 2] None) = '''' \<and>
   Error_Friendly codePool (Error CodeNotFound '''' ''retry'' [] None) \<noteq> '''' \<and>
   Error_Friendly codePool (New CodeGeneric ''so bad'' [VStr ''a'']) = ''''"
  using Friendly_empty_iff [of codePool "Error CodeNotFound '''' '''' [VInt 1, VInt 2] None"
      CodeGeneric "''so bad''" "[VStr ''a'']"]
    Friendly_empty_iff [of codePool "Error CodeNotFound '''' ''retry'' [] None"]
  by simp

subsection \<open>C8: registering a fresh code\<close>

text \<open>
  Claim C8. For a code that is not in the pool, \<^verbatim>\<open>RegisterCode\<close> returns no error,
  and in the pool it leaves \<^verbatim>\<open>CodeHTTPStatus\<close> of the code is the status given and
  \<^verbatim>\<open>CodeString\<close> of the code is the label given.
\<close>

theorem RegisterCode_fresh:
  "c \<notin> dom p \<Longrightarrow>
   fst (RegisterCode p c status typeStr) = None \<and>
   CodeHTTPStatus (snd (RegisterCode p c status typeStr)) c = status \<and>
   CodeString (snd (RegisterCode p c status typeStr)) c = typeStr"
  by (auto simp: RegisterCode_def CodeHTTPStatus_def CodeString_def split: option.splits)

text \<open>
  Claim C8, at code 100 registered with status 504 and label "database" on the initial
  pool.
\<close>

theorem RegisterCode_fresh_witness:
  "100 \<notin> dom codePool \<and>
   fst (RegisterCode codePool 100 504 ''database'') = None \<and>
   CodeHTTPStatus (snd (RegisterCode codePool 100 504 ''database'')) 100 = 504 \<and>
   CodeString (snd (RegisterCode codePool 100 504 ''database'')) 100 = ''database''"
proof -
  have d: "100 \<notin> dom codePool"
    by (simp add: codePool_dom)
  show ?thesis
    using d RegisterCode_fresh [OF d, of 504 "''database''"] by simp
qed

subsection \<open>C9: \<^verbatim>\<open>WrapFriendlyFix\<close>\<close>

text \<open>
  Claim C9 as stated fails for the empty fix: \<^verbatim>\<open>Friendly\<close> appends the space and the
  fix only under \<^verbatim>\<open>if e.fix != ""\<close>, so the text ends with the period of the data
  list and has no space after it.
\<close>

theorem WrapFriendlyFix_empty_fix_counterexample:
  "Error_Friendly codePool
     (WrapFriendlyFix CodeForbidden (Some (Plain ''denied'')) ''forbidden''
        ''you don't have access to the following things:'' ''''
        [VStr ''apples'', VStr ''oranges'']) \<noteq>
   ''auth: you don't have access to the following things: apples, oranges. '' @ ''''"
  by (simp add: Error_Friendly_def WrapFriendlyFix_def WrapFriendly_def Wrap_def
      set_fix_def set_friendly_def CodeString_def codePool_Forbidden)

text \<open>
  Claim C9, amended. For every error \<open>err\<close> that is not nil and every fix \<open>x\<close>, the
  value of the claim's call to \<^verbatim>\<open>WrapFriendlyFix\<close> has the code \<^verbatim>\<open>CodeForbidden\<close> and
  the fix \<open>x\<close>; if \<open>x\<close> is not empty, then in every pool that registrations lead to
  from the initial one its \<^verbatim>\<open>Friendly()\<close> is the claim's text followed by \<open>x\<close>. With
  any arguments, \<^verbatim>\<open>WrapFriendlyFix\<close> stores the code, the fix and the data as given, and
  \<^verbatim>\<open>Friendly()\<close> of its value is that of the value of \<^verbatim>\<open>NewFriendlyFix\<close> with the
  same code, texts and data.
\<close>

theorem WrapFriendlyFix_stores:
  "Error_Code (WrapFriendlyFix CodeForbidden (Some err) ''forbidden''
        ''you don't have access to the following things:'' x
        [VStr ''apples'', VStr ''oranges'']) = CodeForbidden \<and>
   Error_Fix (WrapFriendlyFix CodeForbidden (Some err) ''forbidden''
        ''you don't have access to the following things:'' x
        [VStr ''apples'', VStr ''oranges'']) = x \<and>
   (x \<noteq> '''' \<longrightarrow>
      Error_Friendly (pool_after calls)
        (WrapFriendlyFix CodeForbidden (Some err) ''forbidden''
           ''you don't have access to the following things:'' x
           [VStr ''apples'', VStr ''oranges'']) =
      ''auth: you don't have access to the following things: apples, oranges. '' @ x) \<and>
   code (WrapFriendlyFix c (Some err) message f y ds) = c \<and>
   fix_str (WrapFriendlyFix c (Some err) message f y ds) = y \<and>
   data (WrapFriendlyFix c (Some err) message f y ds) = ds \<and>
   Error_Friendly p (WrapFriendlyFix c (Some err) message f y ds) =
     Error_Friendly p (NewFriendlyFix c message f y ds)"
  by (simp add: Error_Friendly_def Error_Code_def Error_Fix_def WrapFriendlyFix_def
      WrapFriendly_def Wrap_def NewFriendlyFix_def NewFriendly_def New_def Let_def
      set_fix_def set_friendly_def pool_after_Forbidden)

text \<open>
  Claim C9, amended, at the fix of the package's test, after one registration.
\<close>

theorem WrapFriendlyFix_stores_witness:
  "''are you sure you're logged in?'' \<noteq> '''' \<and>
   Error_Friendly (pool_after [(100, 504, ''database'')])
     (WrapFriendlyFix CodeForbidden (Some (Plain ''denied'')) ''forbidden''
        ''you don't have access to the following things:'' ''are you sure you're logged in?''
        [VStr ''apples'', VStr ''oranges'']) =
   ''auth: you don't have access to the following things: apples, oranges. are you sure you're logged in?''"
  using WrapFriendlyFix_stores [where err = "Plain ''denied''"
      and x = "''are you sure you're logged in?''" and calls = "[(100, 504, ''database'')]"
      and c = CodeForbidden and message = "''forbidden''" and f = "''''" and y = "''''"
      and ds = "[]" and p = codePool]
  by simp

subsection \<open>C10: \<^verbatim>\<open>Wrap\<close> of a nil error\<close>

text \<open>
  Claim C10. For every code, message and data, \<^verbatim>\<open>Wrap\<close> of a nil error returns an
  \<^verbatim>\<open>Error\<close> (a non-nil pointer, as from every constructor) whose \<^verbatim>\<open>Cause()\<close> is nil,
  and \<^verbatim>\<open>Error()\<close> on it, called on the struct or through the \<^verbatim>\<open>error\<close> interface,
  panics on the nil cause instead of returning a string.
\<close>

theorem Wrap_nil_panics:
  "Wrap c None message ds = Error c '''' '''' ds None \<and>
   Error_Cause (Wrap c None message ds) = None \<and>
   Error_Error p (Wrap c None message ds) = Inl NilDereference \<and>
   error_Error p (ErrPtr (Wrap c None message ds)) = Inl NilDereference"
  by (simp add: Error_Cause_def Wrap_def errors_Wrap_def)

text \<open>
  Claim C10, at a call with code \<^verbatim>\<open>CodeNotFound\<close> and one data value.
\<close>

theorem Wrap_nil_panics_witness:
  "Error_Cause (Wrap CodeNotFound None ''lookup'' [VInt 1]) = None \<and>
   Error_Error codePool (Wrap CodeNotFound None ''lookup'' [VInt 1]) = Inl NilDereference"
  using Wrap_nil_panics [of CodeNotFound "''lookup''" "[VInt 1]" codePool]
  by blast

end
